theory Spec2Isabelle
  imports Complex_Main "HOL-Library.Word"
begin

section \<open>Edit session state machine (server side)\<close>

text \<open>
  Modelled from the spec: the edit session state machine (ImageEditService in
  backend/services/image\_edit.py) is not among the sources; only its client
  (api/edit.ts, ProductPhotoEditView.vue) and its design notes are. The definitions of
  this section follow sections 3 and 4.2 of the specification word for word: a history
  of image versions, a cursor into it, a capacity of 10 entries, and the transitions
  create, apply, undo and redo.
\<close>

record 'img edit_session =
  history :: "'img list"
  cursor :: int

definition MAX_HISTORY_STEPS :: nat where
  "MAX_HISTORY_STEPS = 10"

text \<open>Modelled from the spec: create yields history = [sourceImage], cursor = 0.\<close>

definition session_create :: "'img \<Rightarrow> 'img edit_session" where
  "session_create src = \<lparr>history = [src], cursor = 0\<rparr>"

text \<open>Modelled from the spec: canUndo = cursor > 0; canRedo = cursor < len(history) - 1.\<close>

definition session_canUndo :: "'img edit_session \<Rightarrow> bool" where
  "session_canUndo s = (cursor s > 0)"

definition session_canRedo :: "'img edit_session \<Rightarrow> bool" where
  "session_canRedo s = (cursor s < int (length (history s)) - 1)"

text \<open>Modelled from the spec: currentImage is a pure read of history[cursor].\<close>

definition session_currentImage :: "'img edit_session \<Rightarrow> 'img option" where
  "session_currentImage s =
     (if 0 \<le> cursor s \<and> cursor s < int (length (history s))
      then Some (history s ! nat (cursor s)) else None)"

text \<open>
  Modelled from the spec: apply truncates history to [0..cursor], appends the edited
  image, sets cursor = len(history) - 1; if this exceeds capacity, the oldest entry is
  evicted and cursor is shifted down by one.
\<close>

definition session_apply :: "'img \<Rightarrow> 'img edit_session \<Rightarrow> 'img edit_session" where
  "session_apply editedImage s =
     (let h = take (nat (cursor s + 1)) (history s) @ [editedImage];
          c = int (length h) - 1
      in if length h > MAX_HISTORY_STEPS
         then \<lparr>history = drop 1 h, cursor = c - 1\<rparr>
         else \<lparr>history = h, cursor = c\<rparr>)"

datatype session_error = IllegalTransition

text \<open>
  Modelled from the spec: undo requires canUndo, decrements cursor by 1 and returns the
  now-current image; it fails with IllegalTransition if not canUndo. redo is symmetric.
\<close>

definition session_undo :: "'img edit_session \<Rightarrow> session_error + 'img edit_session" where
  "session_undo s =
     (if session_canUndo s then Inr (s\<lparr>cursor := cursor s - 1\<rparr>) else Inl IllegalTransition)"

definition session_redo :: "'img edit_session \<Rightarrow> session_error + 'img edit_session" where
  "session_redo s =
     (if session_canRedo s then Inr (s\<lparr>cursor := cursor s + 1\<rparr>) else Inl IllegalTransition)"

datatype 'img session_op = Apply 'img | Undo | Redo

text \<open>
  Modelled from the spec: every transition is all-or-nothing, so a failed undo or redo
  leaves the session as it was.
\<close>

definition session_step :: "'img edit_session \<Rightarrow> 'img session_op \<Rightarrow> 'img edit_session" where
  "session_step s op =
     (case op of
        Apply img \<Rightarrow> session_apply img s
      | Undo \<Rightarrow> (case session_undo s of Inl _ \<Rightarrow> s | Inr s' \<Rightarrow> s')
      | Redo \<Rightarrow> (case session_redo s of Inl _ \<Rightarrow> s | Inr s' \<Rightarrow> s'))"

definition session_run :: "'img edit_session \<Rightarrow> 'img session_op list \<Rightarrow> 'img edit_session" where
  "session_run s ops = foldl session_step s ops"

definition session_inv :: "'img edit_session \<Rightarrow> bool" where
  "session_inv s =
     (0 \<le> cursor s \<and> cursor s < int (length (history s)) \<and>
      1 \<le> length (history s) \<and> length (history s) \<le> MAX_HISTORY_STEPS)"

section \<open>Mask authoring surface (ImageEditor component)\<close>

text \<open>
  JavaScript strings are sequences of UTF-16 code units. JavaScript numbers that the
  component computes with (coordinates, display sizes, the scale factor) are modelled as
  exact rationals; sizes that the DOM reports as integers (natural image size, client
  size of the container, canvas width and height) are naturals.
\<close>

type_synonym jsstring = "16 word list"

text \<open>A call \<open>ctx.arc(x, y, r, 0, 2 * PI); ctx.fill()\<close> with the fill style in force.\<close>

datatype stroke = Arc rat rat rat jsstring

text \<open>
  A canvas element: its bitmap size and what has been drawn on it since the bitmap was
  last reset. Assigning \<open>width\<close> or \<open>height\<close> resets the bitmap, as does
  \<open>clearRect\<close> over the whole canvas.
\<close>

record canvas =
  cwidth :: nat
  cheight :: nat
  ink :: "stroke list"

record html_image =
  img_width :: nat
  img_height :: nat

text \<open>The image canvas: its size and the \<open>drawImage(img, 0, 0, w, h)\<close> call made on it.\<close>

record image_canvas =
  iwidth :: nat
  iheight :: nat
  shown :: "(html_image \<times> rat \<times> rat) option"

text \<open>
  The canvas that \<open>getMaskCanvas\<close> creates: its size, and the single call
  \<open>drawImage(source, 0, 0, sw, sh, 0, 0, dw, dh)\<close> made on it.
\<close>

record export_canvas =
  xwidth :: nat
  xheight :: nat
  xsource :: canvas
  xsrc_rect :: "nat \<times> nat \<times> nat \<times> nat"
  xdst_rect :: "nat \<times> nat \<times> nat \<times> nat"

datatype dom_error = InvalidStateError

text \<open>
  The component state. \<open>mounted\<close> stands for the three template refs
  (\<open>imageCanvasRef\<close>, \<open>maskCanvasRef\<close>, \<open>canvasContainerRef\<close>), which are null before
  the component is mounted and set together afterwards. \<open>context2d\<close> tells whether
  \<open>getContext('2d')\<close> yields a context in this browser. \<open>clientWidth\<close> and
  \<open>clientHeight\<close> are those of the canvas container. \<open>emitted\<close> records the payloads of
  the \<open>mask-change\<close> events in the order they were emitted. The pointer bookkeeping
  (\<open>isDrawing\<close>, \<open>showBrushPreview\<close>, \<open>brushPosition\<close>) only decides when
  \<open>drawPoint\<close> is called and is left out.
\<close>

record editor =
  imageUrl :: jsstring
  brushSize :: rat
  brushColor :: jsstring
  mounted :: bool
  context2d :: bool
  clientWidth :: nat
  clientHeight :: nat
  loading :: bool
  loadError :: bool
  hasMask :: bool
  imageWidth :: nat
  imageHeight :: nat
  canvasScale :: rat
  imageCanvas :: image_canvas
  maskCanvas :: canvas
  emitted :: "bool list"

text \<open>
  The size at which an image is displayed in the container (the first half of
  \<open>setupCanvases\<close>). A client height of 0 is replaced by 600. Division is exact; where
  JavaScript would divide by zero (an image or a container of width 0) the value is not
  meaningful, and the theorems that use it assume positive sizes.
\<close>

definition displaySize :: "html_image \<Rightarrow> nat \<Rightarrow> nat \<Rightarrow> rat \<times> rat" where
  "displaySize img cw ch =
     (let containerWidth = rat_of_nat cw;
          containerHeight = (if ch = 0 then 600 else rat_of_nat ch);
          imgRatio = rat_of_nat (img_width img) / rat_of_nat (img_height img);
          containerRatio = containerWidth / containerHeight
      in if imgRatio > containerRatio
         then (containerWidth, containerWidth / imgRatio)
         else (containerHeight * imgRatio, containerHeight))"

text \<open>Assigning a non-negative number to a canvas dimension keeps its integer part.\<close>

definition toCanvasSize :: "rat \<Rightarrow> nat" where
  "toCanvasSize q = nat \<lfloor>q\<rfloor>"

definition setupCanvases :: "html_image \<Rightarrow> editor \<Rightarrow> editor" where
  "setupCanvases img e =
     (if \<not> mounted e then e
      else
        let (displayWidth, displayHeight) = displaySize img (clientWidth e) (clientHeight e)
        in e\<lparr>imageWidth := img_width img,
             imageHeight := img_height img,
             canvasScale := rat_of_nat (img_width img) / displayWidth,
             imageCanvas :=
               \<lparr>iwidth = toCanvasSize displayWidth, iheight = toCanvasSize displayHeight,
                shown = (if context2d e then Some (img, displayWidth, displayHeight) else None)\<rparr>,
             maskCanvas :=
               \<lparr>cwidth = toCanvasSize displayWidth, cheight = toCanvasSize displayHeight,
                ink = []\<rparr>\<rparr>)"

text \<open>
  \<open>loadImage\<close> awaits the browser's image load. The outcome is given by \<open>net\<close>: the
  loaded image for a URL, or \<open>None\<close> when \<open>onerror\<close> fires. The load is taken as one
  step; what other handlers do while it is pending is not modelled.
\<close>

definition loadImage :: "(jsstring \<Rightarrow> html_image option) \<Rightarrow> editor \<Rightarrow> editor" where
  "loadImage net e =
     (if imageUrl e = [] \<or> \<not> mounted e then e
      else
        let e1 = e\<lparr>loading := True, loadError := False\<rparr>
        in (case net (imageUrl e1) of
              Some img \<Rightarrow> (setupCanvases img e1)\<lparr>loading := False\<rparr>
            | None \<Rightarrow> e1\<lparr>loadError := True, loading := False\<rparr>))"

text \<open>
  \<open>drawPoint\<close>. \<open>arc\<close> throws for a negative radius; the exception leaves the handler
  before anything is drawn or flagged, so the state is as before.
\<close>

definition drawPoint :: "rat \<Rightarrow> rat \<Rightarrow> editor \<Rightarrow> editor" where
  "drawPoint x y e =
     (if \<not> mounted e then e
      else if \<not> context2d e then e
      else if brushSize e / 2 < 0 then e
      else
        let e1 = e\<lparr>maskCanvas :=
                    (maskCanvas e)\<lparr>ink := ink (maskCanvas e) @ [Arc x y (brushSize e / 2) (brushColor e)]\<rparr>\<rparr>
        in if \<not> hasMask e1 then e1\<lparr>hasMask := True, emitted := emitted e1 @ [True]\<rparr>
           else e1)"

definition clearMask :: "editor \<Rightarrow> editor" where
  "clearMask e =
     (if \<not> mounted e then e
      else if \<not> context2d e then e
      else e\<lparr>maskCanvas := (maskCanvas e)\<lparr>ink := []\<rparr>,
             hasMask := False,
             emitted := emitted e @ [False]\<rparr>)"

text \<open>
  \<open>getMaskCanvas\<close>. \<open>drawImage\<close> throws InvalidStateError when its source canvas has
  width or height 0; otherwise the export canvas has the native size of the image and
  holds the mask canvas drawn from its whole area onto the whole export area.
\<close>

definition getMaskCanvas :: "editor \<Rightarrow> dom_error + export_canvas option" where
  "getMaskCanvas e =
     (if \<not> hasMask e then Inr None
      else if \<not> mounted e then Inr None
      else if \<not> context2d e then Inr None
      else if cwidth (maskCanvas e) = 0 \<or> cheight (maskCanvas e) = 0 then Inl InvalidStateError
      else Inr (Some \<lparr>xwidth = imageWidth e, xheight = imageHeight e,
                       xsource = maskCanvas e,
                       xsrc_rect = (0, 0, cwidth (maskCanvas e), cheight (maskCanvas e)),
                       xdst_rect = (0, 0, imageWidth e, imageHeight e)\<rparr>))"

text \<open>The PNG data URL of a canvas, as \<open>toDataURL('image/png')\<close> gives it.\<close>

datatype data_url = PngDataUrl export_canvas

definition getMaskDataUrl :: "editor \<Rightarrow> dom_error + data_url option" where
  "getMaskDataUrl e =
     (case getMaskCanvas e of
        Inl err \<Rightarrow> Inl err
      | Inr None \<Rightarrow> Inr None
      | Inr (Some c) \<Rightarrow> Inr (Some (PngDataUrl c)))"

text \<open>The watcher on the \<open>imageUrl\<close> prop: it runs when the prop changes.\<close>

definition watchImageUrl :: "(jsstring \<Rightarrow> html_image option) \<Rightarrow> jsstring \<Rightarrow> editor \<Rightarrow> editor" where
  "watchImageUrl net url e =
     (if url = imageUrl e then e
      else let e1 = e\<lparr>imageUrl := url\<rparr>
           in if imageUrl e1 \<noteq> [] then loadImage net e1 else e1)"

text \<open>The ResizeObserver callback, run after the container took a new client size.\<close>

definition onResize :: "(jsstring \<Rightarrow> html_image option) \<Rightarrow> nat \<Rightarrow> nat \<Rightarrow> editor \<Rightarrow> editor" where
  "onResize net cw ch e =
     (let e1 = e\<lparr>clientWidth := cw, clientHeight := ch\<rparr>
      in if imageUrl e1 \<noteq> [] then loadImage net e1 else e1)"

text \<open>The retry button of the error overlay is bound to \<open>loadImage\<close>.\<close>

definition retryClick :: "(jsstring \<Rightarrow> html_image option) \<Rightarrow> editor \<Rightarrow> editor" where
  "retryClick net e = loadImage net e"

text \<open>
  The component once mounted, before \<open>onMounted\<close> starts the first load: the refs'
  initial values, and two canvases of the default size 300 by 150.
\<close>

definition mountedEditor :: "jsstring \<Rightarrow> rat \<Rightarrow> jsstring \<Rightarrow> nat \<Rightarrow> nat \<Rightarrow> editor" where
  "mountedEditor url bsize color cw ch =
     \<lparr>imageUrl = url, brushSize = bsize, brushColor = color,
      mounted = True, context2d = True, clientWidth = cw, clientHeight = ch,
      loading = False, loadError = False, hasMask = False,
      imageWidth = 0, imageHeight = 0, canvasScale = 1,
      imageCanvas = \<lparr>iwidth = 300, iheight = 150, shown = None\<rparr>,
      maskCanvas = \<lparr>cwidth = 300, cheight = 150, ink = []\<rparr>,
      emitted = []\<rparr>"

datatype mask_op = Paint rat rat | Clear

definition mask_step :: "editor \<Rightarrow> mask_op \<Rightarrow> editor" where
  "mask_step e op = (case op of Paint x y \<Rightarrow> drawPoint x y e | Clear \<Rightarrow> clearMask e)"

definition mask_run :: "editor \<Rightarrow> mask_op list \<Rightarrow> editor" where
  "mask_run e ops = foldl mask_step e ops"

section \<open>Edit page (ProductPhotoEditView) and its API client\<close>

text \<open>The session summary that the server returns (interface EditSession of api/edit.ts).\<close>

record EditSession =
  es_id :: jsstring
  task_id :: jsstring
  can_undo :: bool
  can_redo :: bool
  history_count :: int
  history_index :: int
  created_at :: jsstring

text \<open>The body of a response of the edit API; absent fields are \<open>None\<close>.\<close>

record api_result =
  r_success :: bool
  r_session :: "EditSession option"
  r_image_url :: "jsstring option"
  r_error :: "jsstring option"

text \<open>
  A request either resolves with a response body or rejects: with an \<open>Error\<close> carrying a
  message (as axios does), or with some other value.
\<close>

datatype thrown = ThrownError jsstring | ThrownOther

datatype api_outcome = Returns api_result | Throws thrown

text \<open>
  The requests of api/edit.ts that the page issues: \<open>applyEdit\<close> (session id,
  instruction, optional mask as a PNG data URL), \<open>undoEdit\<close>, \<open>redoEdit\<close>,
  \<open>getSessionInfo\<close>.
\<close>

datatype request =
    ApplyReq jsstring jsstring "data_url option"
  | UndoReq jsstring
  | RedoReq jsstring
  | InfoReq jsstring

datatype alert = AlertText jsstring | AlertDomError dom_error

text \<open>
  The page state that the edit handlers read and write. \<open>v_editor\<close> is
  \<open>imageEditorRef.value\<close> (null while the editor is not rendered). \<open>v_requests\<close> and
  \<open>v_alerts\<close> record the requests sent and the alerts shown, in order.
\<close>

record view =
  v_isProcessing :: bool
  v_sessionId :: "jsstring option"
  v_session :: "EditSession option"
  v_instruction :: jsstring
  v_hasMask :: bool
  v_hasChanges :: bool
  v_editor :: "editor option"
  v_requests :: "request list"
  v_alerts :: "alert list"

text \<open>
  \<open>String.prototype.trim\<close> removes leading and trailing white space and line
  terminators.
\<close>

definition isWhiteSpace :: "16 word \<Rightarrow> bool" where
  "isWhiteSpace c =
     (c \<in> set [0x0009, 0x000A, 0x000B, 0x000C, 0x000D, 0x0020, 0x00A0, 0x1680,
               0x2000, 0x2001, 0x2002, 0x2003, 0x2004, 0x2005, 0x2006, 0x2007,
               0x2008, 0x2009, 0x200A, 0x2028, 0x2029, 0x202F, 0x205F, 0x3000, 0xFEFF])"

definition js_trim :: "jsstring \<Rightarrow> jsstring" where
  "js_trim s = rev (dropWhile isWhiteSpace (rev (dropWhile isWhiteSpace s)))"

text \<open>\<open>a || b\<close> on an optional string: an absent or empty \<open>a\<close> gives \<open>b\<close>.\<close>

definition js_or :: "jsstring option \<Rightarrow> jsstring \<Rightarrow> jsstring" where
  "js_or a b = (case a of None \<Rightarrow> b | Some x \<Rightarrow> if x = [] then b else x)"

text \<open>The default messages of the three handlers, as UTF-16 code units.\<close>

definition msgEditFailed :: jsstring where
  "msgEditFailed = [0x7F16, 0x8F91, 0x5931, 0x8D25]"

definition msgUndoFailed :: jsstring where
  "msgUndoFailed = [0x64A4, 0x9500, 0x5931, 0x8D25]"

definition msgRedoFailed :: jsstring where
  "msgRedoFailed = [0x91CD, 0x505A, 0x5931, 0x8D25]"

definition canUndo :: "view \<Rightarrow> bool" where
  "canUndo v = (case v_session v of None \<Rightarrow> False | Some s \<Rightarrow> can_undo s)"

definition canRedo :: "view \<Rightarrow> bool" where
  "canRedo v = (case v_session v of None \<Rightarrow> False | Some s \<Rightarrow> can_redo s)"

definition canApplyEdit :: "view \<Rightarrow> bool" where
  "canApplyEdit v = (length (js_trim (v_instruction v)) > 0)"

text \<open>The \<open>catch\<close> and \<open>finally\<close> blocks of the handlers: alert, then clear the busy flag.\<close>

definition alertThrown :: "thrown \<Rightarrow> jsstring \<Rightarrow> view \<Rightarrow> view" where
  "alertThrown t dflt v =
     v\<lparr>v_alerts := v_alerts v @ [AlertText (case t of ThrownError m \<Rightarrow> m | ThrownOther \<Rightarrow> dflt)],
       v_isProcessing := False\<rparr>"

definition refreshSession :: "(request \<Rightarrow> api_outcome) \<Rightarrow> view \<Rightarrow> view" where
  "refreshSession server v =
     (case v_sessionId v of
        None \<Rightarrow> v
      | Some sid \<Rightarrow>
          if sid = [] then v
          else
            let v1 = v\<lparr>v_requests := v_requests v @ [InfoReq sid]\<rparr>
            in (case server (InfoReq sid) of
                  Returns result \<Rightarrow>
                    (case r_session result of
                       Some s \<Rightarrow> (if r_success result then v1\<lparr>v_session := Some s\<rparr> else v1)
                     | None \<Rightarrow> v1)
                | Throws t \<Rightarrow> v1))"

definition handleMaskChange :: "bool \<Rightarrow> view \<Rightarrow> view" where
  "handleMaskChange hasMaskValue v = v\<lparr>v_hasMask := hasMaskValue\<rparr>"

text \<open>
  The page's own \<open>clearMask\<close>: it calls the editor's, whose \<open>mask-change\<close> event sets the
  page's flag through \<open>handleMaskChange\<close>, and then clears the flag itself.
\<close>

definition view_clearMask :: "view \<Rightarrow> view" where
  "view_clearMask v =
     v\<lparr>v_editor := (case v_editor v of None \<Rightarrow> None | Some e \<Rightarrow> Some (clearMask e)),
       v_hasMask := False\<rparr>"

definition handleApplyEdit :: "(request \<Rightarrow> api_outcome) \<Rightarrow> view \<Rightarrow> view" where
  "handleApplyEdit server v =
     (case v_sessionId v of
        None \<Rightarrow> v
      | Some sid \<Rightarrow>
          (if sid = [] \<or> \<not> canApplyEdit v then v
           else
             (let v1 = v\<lparr>v_isProcessing := True\<rparr>
              in (case (case v_editor v1 of None \<Rightarrow> Inr None | Some e \<Rightarrow> getMaskCanvas e) of
                    Inl err \<Rightarrow>
                      v1\<lparr>v_alerts := v_alerts v1 @ [AlertDomError err], v_isProcessing := False\<rparr>
                  | Inr maskCanvasOpt \<Rightarrow>
                      (let req = ApplyReq sid (v_instruction v1)
                                   (if v_hasMask v1 then map_option PngDataUrl maskCanvasOpt
                                    else None);
                           v2 = v1\<lparr>v_requests := v_requests v1 @ [req]\<rparr>
                       in (case server req of
                             Throws t \<Rightarrow> alertThrown t msgEditFailed v2
                           | Returns result \<Rightarrow>
                               (if \<not> r_success result
                                then alertThrown
                                       (ThrownError (js_or (r_error result) msgEditFailed))
                                       msgEditFailed v2
                                else
                                  (let v3 = (case r_session result of
                                               Some s \<Rightarrow> v2\<lparr>v_session := Some s\<rparr>
                                             | None \<Rightarrow> v2);
                                       v4 = view_clearMask (v3\<lparr>v_instruction := []\<rparr>);
                                       v5 = v4\<lparr>v_hasChanges := True\<rparr>;
                                       v6 = refreshSession server v5
                                   in v6\<lparr>v_isProcessing := False\<rparr>))))))))"

definition handleUndo :: "(request \<Rightarrow> api_outcome) \<Rightarrow> view \<Rightarrow> view" where
  "handleUndo server v =
     (case v_sessionId v of
        None \<Rightarrow> v
      | Some sid \<Rightarrow>
          (if sid = [] \<or> \<not> canUndo v then v
           else
             (let v1 = v\<lparr>v_isProcessing := True\<rparr>;
                  v2 = v1\<lparr>v_requests := v_requests v1 @ [UndoReq sid]\<rparr>
              in (case server (UndoReq sid) of
                    Throws t \<Rightarrow> alertThrown t msgUndoFailed v2
                  | Returns result \<Rightarrow>
                      (if \<not> r_success result
                       then alertThrown (ThrownError (js_or (r_error result) msgUndoFailed)) msgUndoFailed v2
                       else
                         (let v3 = (case r_session result of
                                      Some s \<Rightarrow> v2\<lparr>v_session := Some s\<rparr>
                                    | None \<Rightarrow> v2);
                              v4 = refreshSession server v3
                          in v4\<lparr>v_isProcessing := False\<rparr>))))))"

definition handleRedo :: "(request \<Rightarrow> api_outcome) \<Rightarrow> view \<Rightarrow> view" where
  "handleRedo server v =
     (case v_sessionId v of
        None \<Rightarrow> v
      | Some sid \<Rightarrow>
          (if sid = [] \<or> \<not> canRedo v then v
           else
             (let v1 = v\<lparr>v_isProcessing := True\<rparr>;
                  v2 = v1\<lparr>v_requests := v_requests v1 @ [RedoReq sid]\<rparr>
              in (case server (RedoReq sid) of
                    Throws t \<Rightarrow> alertThrown t msgRedoFailed v2
                  | Returns result \<Rightarrow>
                      (if \<not> r_success result
                       then alertThrown (ThrownError (js_or (r_error result) msgRedoFailed)) msgRedoFailed v2
                       else
                         (let v3 = (case r_session result of
                                      Some s \<Rightarrow> v2\<lparr>v_session := Some s\<rparr>
                                    | None \<Rightarrow> v2);
                              v4 = refreshSession server v3
                          in v4\<lparr>v_isProcessing := False\<rparr>))))))"

text \<open>Whether a response counts as a failed edit: the body reports failure, or the request throws.\<close>

definition callFails :: "api_outcome \<Rightarrow> bool" where
  "callFails out = (case out of Returns result \<Rightarrow> \<not> r_success result | Throws t \<Rightarrow> True)"

section \<open>Product image uploader (ProductUploader component)\<close>

text \<open>A string literal of the source, as code units.\<close>

definition ascii :: "string \<Rightarrow> jsstring" where
  "ascii cs = map (\<lambda>c. of_nat (of_char c)) cs"

text \<open>What the component reads of a browser \<open>File\<close>: name, MIME type, size in bytes.\<close>

record js_file =
  file_name :: jsstring
  file_type :: jsstring
  file_size :: nat

text \<open>
  An entry of the image list. The source also stores an \<open>id\<close> (a random token) and a
  \<open>preview\<close> (an object URL of the file); neither is read by the code modelled here.
\<close>

record ProductImage =
  pi_file :: js_file

text \<open>
  The error messages by the template that builds them: the limit message (with
  \<open>maxImages\<close>), the format and size messages (with the file name), and the message that
  only \<open>remainingSlots\<close> images were added.
\<close>

datatype upload_error =
    LimitReached int
  | UnsupportedFormat jsstring
  | FileTooLarge jsstring
  | OnlyAdded int

datatype upload_event =
    EmitError upload_error
  | EmitAdd "js_file list"
  | EmitUpdate "js_file list"
  | EmitRemove nat

record uploader =
  maxImages :: int
  images :: "ProductImage list"
  up_error :: "upload_error option"
  up_emitted :: "upload_event list"

definition ACCEPTED_FORMATS :: "jsstring list" where
  "ACCEPTED_FORMATS = [ascii ''image/png'', ascii ''image/jpeg'', ascii ''image/webp'']"

definition maxSize :: nat where
  "maxSize = 10 * 1024 * 1024"

definition files :: "uploader \<Rightarrow> js_file list" where
  "files u = map pi_file (images u)"

definition emitError :: "upload_error \<Rightarrow> uploader \<Rightarrow> uploader" where
  "emitError err u = u\<lparr>up_error := Some err, up_emitted := up_emitted u @ [EmitError err]\<rparr>"

text \<open>The validation loop of \<open>processFiles\<close>, with the list of valid files built so far.\<close>

fun validateFiles :: "js_file list \<Rightarrow> uploader \<Rightarrow> js_file list \<Rightarrow> uploader \<times> js_file list" where
  "validateFiles [] u validFiles = (u, validFiles)"
| "validateFiles (f # fs) u validFiles =
     (if file_type f \<notin> set ACCEPTED_FORMATS
      then validateFiles fs (emitError (UnsupportedFormat (file_name f)) u) validFiles
      else if file_size f > maxSize
      then validateFiles fs (emitError (FileTooLarge (file_name f)) u) validFiles
      else validateFiles fs u (validFiles @ [f]))"

definition processFiles :: "js_file list \<Rightarrow> uploader \<Rightarrow> uploader" where
  "processFiles fileList u0 =
     (let u = u0\<lparr>up_error := None\<rparr>;
          remainingSlots = maxImages u - int (length (images u))
      in if remainingSlots \<le> 0 then emitError (LimitReached (maxImages u)) u
         else
           (let filesToAdd = take (nat remainingSlots) fileList;
                (u1, validFiles) = validateFiles filesToAdd u []
            in if validFiles = [] then u1
               else
                 (let u2 = u1\<lparr>images := images u1 @ map (\<lambda>f. \<lparr>pi_file = f\<rparr>) validFiles\<rparr>;
                      u3 = u2\<lparr>up_emitted := up_emitted u2 @ [EmitAdd validFiles, EmitUpdate (files u2)]\<rparr>
                  in if int (length fileList) > remainingSlots
                     then emitError (OnlyAdded remainingSlots) u3
                     else u3)))"

text \<open>
  \<open>handleFileSelect\<close> and \<open>handleZoneDrop\<close>: the file list of the input element or of the
  drop's data transfer, which may be absent.
\<close>

definition handleFileSelect :: "js_file list option \<Rightarrow> uploader \<Rightarrow> uploader" where
  "handleFileSelect fs u =
     (case fs of None \<Rightarrow> u | Some l \<Rightarrow> if length l > 0 then processFiles l u else u)"

definition handleZoneDrop :: "js_file list option \<Rightarrow> uploader \<Rightarrow> uploader" where
  "handleZoneDrop fs u =
     (case fs of None \<Rightarrow> u | Some l \<Rightarrow> if length l > 0 then processFiles l u else u)"

definition removeImage :: "nat \<Rightarrow> uploader \<Rightarrow> uploader" where
  "removeImage index u =
     (let u1 = (if index < length (images u)
                then (let u' = u\<lparr>images := take index (images u) @ drop (Suc index) (images u)\<rparr>
                      in u'\<lparr>up_emitted := up_emitted u' @ [EmitRemove index, EmitUpdate (files u')]\<rparr>)
                else u)
      in u1\<lparr>up_error := None\<rparr>)"

definition newUploader :: "int \<Rightarrow> uploader" where
  "newUploader m = \<lparr>maxImages = m, images = [], up_error = None, up_emitted = []\<rparr>"

datatype upload_op = Select "js_file list option" | Drop "js_file list option" | Remove nat

definition upload_step :: "uploader \<Rightarrow> upload_op \<Rightarrow> uploader" where
  "upload_step u op =
     (case op of
        Select fs \<Rightarrow> handleFileSelect fs u
      | Drop fs \<Rightarrow> handleZoneDrop fs u
      | Remove i \<Rightarrow> removeImage i u)"

definition upload_run :: "uploader \<Rightarrow> upload_op list \<Rightarrow> uploader" where
  "upload_run u ops = foldl upload_step u ops"

definition acceptable :: "js_file \<Rightarrow> bool" where
  "acceptable f = (file_type f \<in> set ACCEPTED_FORMATS \<and> file_size f \<le> maxSize)"

text \<open>
  The flag's events as the specification words them: a paint emits \<open>True\<close> when the
  flag is down and nothing when it is up; a clear emits \<open>False\<close> and lowers the flag.
\<close>

fun hasContent_events :: "bool \<Rightarrow> mask_op list \<Rightarrow> bool list" where
  "hasContent_events flag [] = []"
| "hasContent_events flag (Paint x y # ops) =
     (if flag then [] else [True]) @ hasContent_events True ops"
| "hasContent_events flag (Clear # ops) = False # hasContent_events False ops"

definition upload_inv :: "uploader \<Rightarrow> bool" where
  "upload_inv u =
     (int (length (images u)) \<le> maxImages u \<and>
      (\<forall>img \<in> set (images u). acceptable (pi_file img)))"

subsection \<open>Concrete inputs\<close>

text \<open>
  Image URLs "a" (an 800 by 400 image) and "b" (a 400 by 400 image) load; every other
  URL fails to load.
\<close>

definition exampleNet :: "jsstring \<Rightarrow> html_image option" where
  "exampleNet url =
     (if url = [0x61] then Some \<lparr>img_width = 800, img_height = 400\<rparr>
      else if url = [0x62] then Some \<lparr>img_width = 400, img_height = 400\<rparr>
      else None)"

text \<open>The editor mounted in a 400 by 300 container with image "a" loaded, brush 30, colour "red".\<close>

definition exampleEditor :: editor where
  "exampleEditor = loadImage exampleNet (mountedEditor [0x61] 30 [0x72, 0x65, 0x64] 400 300)"

text \<open>The same after one brush stroke at (10, 10).\<close>

definition paintedEditor :: editor where
  "paintedEditor = drawPoint 10 10 exampleEditor"

definition exampleSession :: EditSession where
  "exampleSession =
     \<lparr>es_id = ascii ''s1'', task_id = ascii ''t1'', can_undo = False, can_redo = False,
      history_count = 1, history_index = 0, created_at = ascii ''2025''\<rparr>"

text \<open>The edit page with an instruction typed and a mask drawn.\<close>

definition exampleView :: view where
  "exampleView =
     \<lparr>v_isProcessing = False, v_sessionId = Some (ascii ''s1''),
      v_session = Some exampleSession, v_instruction = ascii ''brighten'',
      v_hasMask = True, v_hasChanges = False, v_editor = Some paintedEditor,
      v_requests = [], v_alerts = []\<rparr>"

text \<open>A server whose every response reports failure without a message.\<close>

definition failingServer :: "request \<Rightarrow> api_outcome" where
  "failingServer req =
     Returns \<lparr>r_success = False, r_session = None, r_image_url = None, r_error = None\<rparr>"

definition pngFile :: js_file where
  "pngFile = \<lparr>file_name = ascii ''a.png'', file_type = ascii ''image/png'', file_size = 2048\<rparr>"

definition gifFile :: js_file where
  "gifFile = \<lparr>file_name = ascii ''b.gif'', file_type = ascii ''image/gif'', file_size = 2048\<rparr>"

definition hugeFile :: js_file where
  "hugeFile =
     \<lparr>file_name = ascii ''c.jpg'', file_type = ascii ''image/jpeg'', file_size = 10485761\<rparr>"

section \<open>Theorems\<close>

subsection \<open>The concrete inputs evaluated\<close>

lemma example_displaySize:
  "displaySize \<lparr>img_width = 800, img_height = 400\<rparr> 400 300 = (400, 200)"
  "displaySize \<lparr>img_width = 400, img_height = 400\<rparr> 400 300 = (300, 300)"
  "displaySize \<lparr>img_width = 800, img_height = 400\<rparr> 200 300 = (200, 100)"
  by (simp_all add: displaySize_def Let_def)

lemma exampleEditor_eq:
  "exampleEditor =
     \<lparr>imageUrl = [0x61], brushSize = 30, brushColor = [0x72, 0x65, 0x64],
      mounted = True, context2d = True, clientWidth = 400, clientHeight = 300,
      loading = False, loadError = False, hasMask = False,
      imageWidth = 800, imageHeight = 400, canvasScale = 2,
      imageCanvas = \<lparr>iwidth = 400, iheight = 200,
                     shown = Some (\<lparr>img_width = 800, img_height = 400\<rparr>, 400, 200)\<rparr>,
      maskCanvas = \<lparr>cwidth = 400, cheight = 200, ink = []\<rparr>,
      emitted = []\<rparr>"
  by (simp add: exampleEditor_def loadImage_def mountedEditor_def exampleNet_def
      setupCanvases_def example_displaySize toCanvasSize_def)

lemma paintedEditor_eq:
  "paintedEditor =
     exampleEditor\<lparr>hasMask := True,
                   maskCanvas := \<lparr>cwidth = 400, cheight = 200,
                                  ink = [Arc 10 10 15 [0x72, 0x65, 0x64]]\<rparr>,
                   emitted := [True]\<rparr>"
  by (simp add: paintedEditor_def drawPoint_def exampleEditor_eq)

lemma paintedEditor_export:
  "getMaskCanvas paintedEditor =
     Inr (Some \<lparr>xwidth = 800, xheight = 400,
                 xsource = \<lparr>cwidth = 400, cheight = 200,
                            ink = [Arc 10 10 15 [0x72, 0x65, 0x64]]\<rparr>,
                 xsrc_rect = (0, 0, 400, 200), xdst_rect = (0, 0, 800, 400)\<rparr>)"
  by (simp add: getMaskCanvas_def paintedEditor_eq exampleEditor_eq)

subsection \<open>Session invariant\<close>

lemma session_inv_create: "session_inv (session_create src)"
  by (simp add: session_inv_def session_create_def MAX_HISTORY_STEPS_def)

lemma session_inv_apply:
  assumes "session_inv s"
  shows "session_inv (session_apply img s)"
proof -
  let ?h = "take (nat (cursor s + 1)) (history s) @ [img]"
  from assms have "nat (cursor s + 1) \<le> length (history s)"
    by (simp add: session_inv_def) linarith
  then have len: "length ?h = nat (cursor s + 1) + 1"
    by simp
  from assms have bound: "nat (cursor s + 1) \<le> MAX_HISTORY_STEPS"
    by (simp add: session_inv_def) linarith
  show ?thesis
  proof (cases "length ?h > MAX_HISTORY_STEPS")
    case True
    with len bound have "length ?h = MAX_HISTORY_STEPS + 1" by simp
    with True show ?thesis
      by (simp add: session_apply_def session_inv_def Let_def MAX_HISTORY_STEPS_def)
  next
    case False
    with len show ?thesis
      by (simp add: session_apply_def session_inv_def Let_def)
  qed
qed

lemma session_inv_undo:
  assumes "session_inv s"
  shows "session_inv (case session_undo s of Inl _ \<Rightarrow> s | Inr s' \<Rightarrow> s')"
  using assms by (simp add: session_undo_def session_canUndo_def session_inv_def)

lemma session_inv_redo:
  assumes "session_inv s"
  shows "session_inv (case session_redo s of Inl _ \<Rightarrow> s | Inr s' \<Rightarrow> s')"
  using assms by (simp add: session_redo_def session_canRedo_def session_inv_def)

lemma session_inv_step: "session_inv s \<Longrightarrow> session_inv (session_step s op)"
  by (cases op)
     (simp_all add: session_step_def session_inv_apply session_inv_undo session_inv_redo)

lemma session_inv_foldl: "session_inv s \<Longrightarrow> session_inv (foldl session_step s ops)"
  by (induction ops arbitrary: s) (simp_all add: session_inv_step)

text \<open>
  Claim C1. Every session state reached from a freshly created session by any sequence
  of apply, undo and redo requests satisfies 0 <= cursor < len(history),
  len(history) >= 1 and len(history) <= 10; and each single operation, taken from any
  state that satisfies the invariant, leads to a state that satisfies it.
\<close>

theorem session_invariant:
  "session_inv (session_run (session_create src) ops) \<and>
   (session_inv s \<longrightarrow>
      session_inv (session_apply img s) \<and>
      session_inv (case session_undo s of Inl _ \<Rightarrow> s | Inr s' \<Rightarrow> s') \<and>
      session_inv (case session_redo s of Inl _ \<Rightarrow> s | Inr s' \<Rightarrow> s'))"
  by (simp add: session_run_def session_inv_foldl session_inv_create
      session_inv_apply session_inv_undo session_inv_redo)

theorem session_invariant_witness:
  "session_inv \<lparr>history = [1::nat, 2, 3], cursor = 1\<rparr> \<and>
   session_inv (session_run (session_create (0::nat)) [Apply 1, Undo, Redo, Apply 2]) \<and>
   session_inv (session_apply 4 \<lparr>history = [1::nat, 2, 3], cursor = 1\<rparr>) \<and>
   session_undo \<lparr>history = [1::nat, 2, 3], cursor = 1\<rparr>
     = Inr \<lparr>history = [1, 2, 3], cursor = 0\<rparr> \<and>
   session_inv \<lparr>history = [1::nat, 2, 3], cursor = 0\<rparr> \<and>
   session_redo \<lparr>history = [1::nat, 2, 3], cursor = 1\<rparr>
     = Inr \<lparr>history = [1, 2, 3], cursor = 2\<rparr> \<and>
   session_inv \<lparr>history = [1::nat, 2, 3], cursor = 2\<rparr>"
proof -
  have h: "session_inv \<lparr>history = [1::nat, 2, 3], cursor = 1\<rparr>"
    by (simp add: session_inv_def MAX_HISTORY_STEPS_def)
  have u: "session_undo \<lparr>history = [1::nat, 2, 3], cursor = 1\<rparr>
      = Inr \<lparr>history = [1, 2, 3], cursor = 0\<rparr>"
    by (simp add: session_undo_def session_canUndo_def)
  have r: "session_redo \<lparr>history = [1::nat, 2, 3], cursor = 1\<rparr>
      = Inr \<lparr>history = [1, 2, 3], cursor = 2\<rparr>"
    by (simp add: session_redo_def session_canRedo_def)
  from session_invariant [of "0::nat" "[Apply 1, Undo, Redo, Apply 2]"
      "\<lparr>history = [1::nat, 2, 3], cursor = 1\<rparr>" 4] h u r
  show ?thesis by simp
qed

subsection \<open>Apply: branch discard and eviction\<close>

text \<open>
  Claim C2. For every session and every image, apply keeps the prefix [0..cursor] of
  the history, appends the edited image and points the cursor at the last entry; when
  that would give more than 10 entries the oldest one is dropped and the cursor is one
  lower. After apply canRedo is false. From history [A, B, C] with cursor 0, applying D
  gives history [A, D], cursor 1 and canRedo false.
\<close>

theorem session_apply_branch_discard:
  "history (session_apply img s) =
     (if length (take (nat (cursor s + 1)) (history s)) + 1 > 10
      then drop 1 (take (nat (cursor s + 1)) (history s) @ [img])
      else take (nat (cursor s + 1)) (history s) @ [img]) \<and>
   cursor (session_apply img s) = int (length (history (session_apply img s))) - 1 \<and>
   last (history (session_apply img s)) = img \<and>
   \<not> session_canRedo (session_apply img s) \<and>
   session_apply D \<lparr>history = [A, B, C], cursor = 0\<rparr> = \<lparr>history = [A, D], cursor = 1\<rparr> \<and>
   \<not> session_canRedo (session_apply D \<lparr>history = [A, B, C], cursor = 0\<rparr>)"
  by (auto simp add: session_apply_def session_canRedo_def Let_def MAX_HISTORY_STEPS_def)

subsection \<open>Edit page: guards and failed edits\<close>

text \<open>
  Claim C4. When the handler reaches the edit request (a session id is set, the
  instruction is not blank, the mask export did not throw) and that request fails,
  because the response reports failure or because the request throws, then the session
  summary, the instruction text, the editor with its drawn mask, the page's mask flag
  and its changes flag are as before the call; exactly one apply request was sent (no
  retry); exactly one alert carrying the failure message was shown; and the busy flag
  is cleared.
\<close>

theorem handleApplyEdit_failure_unchanged:
  assumes sid: "v_sessionId v = Some sid" "sid \<noteq> []"
    and instr: "canApplyEdit v"
    and mask: "(case v_editor v of None \<Rightarrow> Inr None | Some e \<Rightarrow> getMaskCanvas e) = Inr m"
    and req: "req = ApplyReq sid (v_instruction v)
                      (if v_hasMask v then map_option PngDataUrl m else None)"
    and fails: "callFails (server req)"
  shows "v_session (handleApplyEdit server v) = v_session v \<and>
         v_instruction (handleApplyEdit server v) = v_instruction v \<and>
         v_editor (handleApplyEdit server v) = v_editor v \<and>
         v_hasMask (handleApplyEdit server v) = v_hasMask v \<and>
         v_hasChanges (handleApplyEdit server v) = v_hasChanges v \<and>
         v_sessionId (handleApplyEdit server v) = v_sessionId v \<and>
         v_requests (handleApplyEdit server v) = v_requests v @ [req] \<and>
         v_alerts (handleApplyEdit server v) =
           v_alerts v @
           [AlertText (case server req of
                         Returns result \<Rightarrow> js_or (r_error result) msgEditFailed
                       | Throws (ThrownError msg) \<Rightarrow> msg
                       | Throws ThrownOther \<Rightarrow> msgEditFailed)] \<and>
         \<not> v_isProcessing (handleApplyEdit server v)"
  using assms
  by (auto simp add: handleApplyEdit_def callFails_def alertThrown_def Let_def
      split: api_outcome.splits thrown.splits)

theorem handleApplyEdit_failure_unchanged_witness:
  "canApplyEdit exampleView \<and>
   v_session (handleApplyEdit failingServer exampleView) = Some exampleSession \<and>
   v_instruction (handleApplyEdit failingServer exampleView) = ascii ''brighten'' \<and>
   v_editor (handleApplyEdit failingServer exampleView) = Some paintedEditor \<and>
   v_hasMask (handleApplyEdit failingServer exampleView) \<and>
   v_requests (handleApplyEdit failingServer exampleView) =
     [ApplyReq (ascii ''s1'') (ascii ''brighten'')
        (Some (PngDataUrl
                 \<lparr>xwidth = 800, xheight = 400,
                  xsource = \<lparr>cwidth = 400, cheight = 200,
                             ink = [Arc 10 10 15 [0x72, 0x65, 0x64]]\<rparr>,
                  xsrc_rect = (0, 0, 400, 200), xdst_rect = (0, 0, 800, 400)\<rparr>))] \<and>
   v_alerts (handleApplyEdit failingServer exampleView) = [AlertText msgEditFailed]"
proof -
  have sid: "v_sessionId exampleView = Some (ascii ''s1'')" "ascii ''s1'' \<noteq> []"
    by (simp_all add: exampleView_def ascii_def)
  have instr: "canApplyEdit exampleView"
    by (simp add: canApplyEdit_def exampleView_def ascii_def js_trim_def isWhiteSpace_def)
  have mask: "(case v_editor exampleView of None \<Rightarrow> Inr None | Some e \<Rightarrow> getMaskCanvas e)
     = Inr (Some \<lparr>xwidth = 800, xheight = 400,
                 xsource = \<lparr>cwidth = 400, cheight = 200,
                            ink = [Arc 10 10 15 [0x72, 0x65, 0x64]]\<rparr>,
                 xsrc_rect = (0, 0, 400, 200), xdst_rect = (0, 0, 800, 400)\<rparr>)"
    by (simp add: exampleView_def paintedEditor_export)
  have fails: "callFails (failingServer r)" for r
    by (simp add: callFails_def failingServer_def)
  have pre: "v_session exampleView = Some exampleSession"
    "v_instruction exampleView = ascii ''brighten''"
    "v_editor exampleView = Some paintedEditor" "v_hasMask exampleView"
    "v_requests exampleView = []" "v_alerts exampleView = []"
    by (simp_all add: exampleView_def)
  have msg: "(case failingServer r of
                Returns result \<Rightarrow> js_or (r_error result) msgEditFailed
              | Throws (ThrownError msg) \<Rightarrow> msg
              | Throws ThrownOther \<Rightarrow> msgEditFailed) = msgEditFailed" for r
    by (simp add: failingServer_def js_or_def)
  from handleApplyEdit_failure_unchanged
         [where server = failingServer, OF sid instr mask refl fails] instr
  show ?thesis
    by (simp add: pre msg)
qed

text \<open>
  Claim C5. Whenever the instruction is empty after trimming white space,
  handleApplyEdit returns the page state it was given: no request is added to the
  requests sent and no field of the state changes.
\<close>

theorem handleApplyEdit_blank_instruction:
  "js_trim (v_instruction v) = [] \<Longrightarrow> handleApplyEdit server v = v"
  by (simp add: handleApplyEdit_def canApplyEdit_def split: option.splits)

theorem handleApplyEdit_blank_instruction_witness:
  "js_trim [0x20, 0x3000, 0x0A] = [] \<and>
   handleApplyEdit failingServer (exampleView\<lparr>v_instruction := [0x20, 0x3000, 0x0A]\<rparr>)
     = exampleView\<lparr>v_instruction := [0x20, 0x3000, 0x0A]\<rparr> \<and>
   v_requests (handleApplyEdit failingServer (exampleView\<lparr>v_instruction := [0x20, 0x3000, 0x0A]\<rparr>))
     = []"
proof -
  have blank: "js_trim (v_instruction (exampleView\<lparr>v_instruction := [0x20, 0x3000, 0x0A]\<rparr>)) = []"
    by (simp add: js_trim_def isWhiteSpace_def)
  from handleApplyEdit_blank_instruction [OF blank, of failingServer] blank
  show ?thesis by (simp add: exampleView_def)
qed

subsection \<open>Undo and redo: illegal transitions\<close>

text \<open>
  Claim C6. On the session, undo succeeds (cursor one lower) when canUndo holds and
  fails with IllegalTransition otherwise; redo succeeds (cursor one higher) when
  canRedo holds and fails with IllegalTransition otherwise. On the page, handleUndo
  returns the page state unchanged, with no request sent, when canUndo is false, and
  handleRedo does so when canRedo is false.
\<close>

theorem undo_redo_illegal_transition:
  "session_undo s =
     (if session_canUndo s then Inr (s\<lparr>cursor := cursor s - 1\<rparr>) else Inl IllegalTransition) \<and>
   session_redo s =
     (if session_canRedo s then Inr (s\<lparr>cursor := cursor s + 1\<rparr>) else Inl IllegalTransition) \<and>
   (\<not> canUndo v \<longrightarrow> handleUndo server v = v) \<and>
   (\<not> canRedo v \<longrightarrow> handleRedo server v = v)"
  by (simp add: session_undo_def session_redo_def handleUndo_def handleRedo_def
      split: option.splits)

theorem undo_redo_illegal_transition_witness:
  "session_undo (session_create (0::nat)) = Inl IllegalTransition \<and>
   session_redo (session_create (0::nat)) = Inl IllegalTransition \<and>
   \<not> canUndo exampleView \<and> handleUndo failingServer exampleView = exampleView \<and>
   \<not> canRedo exampleView \<and> handleRedo failingServer exampleView = exampleView"
proof -
  have u: "\<not> canUndo exampleView" and r: "\<not> canRedo exampleView"
    by (simp_all add: canUndo_def canRedo_def exampleView_def exampleSession_def)
  have s: "\<not> session_canUndo (session_create (0::nat))" "\<not> session_canRedo (session_create (0::nat))"
    by (simp_all add: session_canUndo_def session_canRedo_def session_create_def)
  from undo_redo_illegal_transition [of "session_create (0::nat)" exampleView failingServer] u r s
  show ?thesis by simp
qed

subsection \<open>Mask surface: export, flag and events\<close>

lemma getMaskCanvas_None_iff:
  "getMaskCanvas e = Inr None \<longleftrightarrow> \<not> hasMask e \<or> \<not> mounted e \<or> \<not> context2d e"
  by (simp add: getMaskCanvas_def)

lemma getMaskCanvas_native_size:
  "getMaskCanvas e = Inr (Some c) \<Longrightarrow>
     xwidth c = imageWidth e \<and> xheight c = imageHeight e \<and> xsource c = maskCanvas e \<and>
     xsrc_rect c = (0, 0, cwidth (maskCanvas e), cheight (maskCanvas e)) \<and>
     xdst_rect c = (0, 0, imageWidth e, imageHeight e)"
  by (auto simp add: getMaskCanvas_def split: if_splits)

lemma mask_step_env:
  "mounted (mask_step e op) = mounted e \<and> context2d (mask_step e op) = context2d e \<and>
   brushSize (mask_step e op) = brushSize e"
  by (cases op) (simp_all add: mask_step_def drawPoint_def clearMask_def Let_def)

text \<open>
  Over paints and clears alone the events are those of the specification, started with
  the flag the component holds.
\<close>

lemma mask_run_events:
  "mounted e \<Longrightarrow> context2d e \<Longrightarrow> 0 \<le> brushSize e \<Longrightarrow>
   emitted (mask_run e ops) = emitted e @ hasContent_events (hasMask e) ops"
proof (induction ops arbitrary: e)
  case Nil
  then show ?case by (simp add: mask_run_def)
next
  case (Cons op ops)
  have env: "mounted (mask_step e op)" "context2d (mask_step e op)"
    "0 \<le> brushSize (mask_step e op)"
    using Cons.prems by (simp_all add: mask_step_env)
  have run: "mask_run e (op # ops) = mask_run (mask_step e op) ops"
    by (simp add: mask_run_def)
  show ?case
    unfolding run Cons.IH [OF env]
    using Cons.prems
    by (cases op) (simp_all add: mask_step_def drawPoint_def clearMask_def Let_def)
qed

lemma clearMask_resets:
  "mounted e \<Longrightarrow> context2d e \<Longrightarrow>
   \<not> hasMask (clearMask e) \<and> ink (maskCanvas (clearMask e)) = [] \<and>
   emitted (clearMask e) = emitted e @ [False]"
  by (simp add: clearMask_def)

text \<open>
  Claim C3. Exporting the mask is to return the "no mask" value exactly when nothing
  has been painted since the last clear or image load, and otherwise a bitmap of the
  image's native size scaled up from the mask canvas. The code departs from this after
  an image load: with one stroke painted on image "a" and then image "b" loaded, the
  mask canvas is blank and nothing has been painted since the load, yet the flag
  \<open>hasMask\<close> is still set and \<open>getMaskCanvas\<close> and \<open>getMaskDataUrl\<close> return a blank
  bitmap of the native size of "b" (400 by 400) instead of the "no mask" value.
\<close>

theorem getMaskCanvas_after_image_load:
  "ink (maskCanvas (watchImageUrl exampleNet [0x62] paintedEditor)) = [] \<and>
   hasMask (watchImageUrl exampleNet [0x62] paintedEditor) \<and>
   getMaskCanvas (watchImageUrl exampleNet [0x62] paintedEditor) =
     Inr (Some \<lparr>xwidth = 400, xheight = 400,
                 xsource = \<lparr>cwidth = 300, cheight = 300, ink = []\<rparr>,
                 xsrc_rect = (0, 0, 300, 300), xdst_rect = (0, 0, 400, 400)\<rparr>) \<and>
   getMaskDataUrl (watchImageUrl exampleNet [0x62] paintedEditor) =
     Inr (Some (PngDataUrl
                 \<lparr>xwidth = 400, xheight = 400,
                  xsource = \<lparr>cwidth = 300, cheight = 300, ink = []\<rparr>,
                  xsrc_rect = (0, 0, 300, 300), xdst_rect = (0, 0, 400, 400)\<rparr>))"
  by (simp add: paintedEditor_eq exampleEditor_eq watchImageUrl_def loadImage_def
      exampleNet_def setupCanvases_def example_displaySize toCanvasSize_def
      getMaskCanvas_def getMaskDataUrl_def)

text \<open>
  Claim C8. The \<open>mask-change\<close> event is to go from false to true once per paint session:
  the first paint after a clear or load emits true, later paints emit nothing, and clear
  lowers the flag and emits false. The code departs from this after an image load: with
  one stroke painted and the image then reloaded (here by a resize), the mask canvas is
  blank but the flag is still up, and the first paint after the load emits nothing.
\<close>

theorem first_paint_after_load_emits_nothing:
  "ink (maskCanvas (onResize exampleNet 200 300 paintedEditor)) = [] \<and>
   hasMask (onResize exampleNet 200 300 paintedEditor) \<and>
   emitted (onResize exampleNet 200 300 paintedEditor) = [True] \<and>
   ink (maskCanvas (drawPoint 20 20 (onResize exampleNet 200 300 paintedEditor)))
     = [Arc 20 20 15 [0x72, 0x65, 0x64]] \<and>
   emitted (drawPoint 20 20 (onResize exampleNet 200 300 paintedEditor)) = [True]"
  by (simp add: paintedEditor_eq exampleEditor_eq onResize_def loadImage_def exampleNet_def
      setupCanvases_def example_displaySize toCanvasSize_def drawPoint_def)

subsection \<open>Mask surface: resize and reload\<close>




lemma loadImage_success:
  assumes "mounted e" "imageUrl e \<noteq> []" "net (imageUrl e) = Some img"
  shows "loadImage net e =
     e\<lparr>loading := False, loadError := False,
       imageWidth := img_width img, imageHeight := img_height img,
       canvasScale := rat_of_nat (img_width img) / fst (displaySize img (clientWidth e) (clientHeight e)),
       imageCanvas :=
         \<lparr>iwidth = toCanvasSize (fst (displaySize img (clientWidth e) (clientHeight e))),
          iheight = toCanvasSize (snd (displaySize img (clientWidth e) (clientHeight e))),
          shown = (if context2d e
                   then Some (img, fst (displaySize img (clientWidth e) (clientHeight e)),
                                   snd (displaySize img (clientWidth e) (clientHeight e)))
                   else None)\<rparr>,
       maskCanvas :=
         \<lparr>cwidth = toCanvasSize (fst (displaySize img (clientWidth e) (clientHeight e))),
          cheight = toCanvasSize (snd (displaySize img (clientWidth e) (clientHeight e))),
          ink = []\<rparr>\<rparr>"
  using assms
  by (simp add: loadImage_def setupCanvases_def Let_def split: prod.splits)

lemma loadImage_failure:
  assumes "mounted e" "imageUrl e \<noteq> []" "net (imageUrl e) = None"
  shows "loadImage net e = e\<lparr>loading := False, loadError := True\<rparr>"
  using assms by (simp add: loadImage_def)




text \<open>
  Claim C9, as amended. For every load triggered by a changed, non-empty image URL on
  the mounted editor: when the image loads, the mask canvas is reset to blank and the
  error flag is down; when it fails to load, the error flag is set, the loading flag is
  cleared, and everything else, the canvases and the mask painted so far included, is
  left as it was; the retry control runs the load again, and a retry that loads the
  image clears the error flag and sets the canvases up for it with a blank mask canvas.
\<close>

theorem watchImageUrl_load_outcomes:
  assumes "mounted e" "url \<noteq> imageUrl e" "url \<noteq> []"
  shows "(net url = Some img \<longrightarrow>
            ink (maskCanvas (watchImageUrl net url e)) = [] \<and>
            imageWidth (watchImageUrl net url e) = img_width img \<and>
            imageHeight (watchImageUrl net url e) = img_height img \<and>
            \<not> loadError (watchImageUrl net url e) \<and> \<not> loading (watchImageUrl net url e)) \<and>
         (net url = None \<longrightarrow>
            watchImageUrl net url e = e\<lparr>imageUrl := url, loading := False, loadError := True\<rparr> \<and>
            retryClick net' (watchImageUrl net url e) = loadImage net' (watchImageUrl net url e) \<and>
            (net' url = Some img \<longrightarrow>
               \<not> loadError (retryClick net' (watchImageUrl net url e)) \<and>
               imageWidth (retryClick net' (watchImageUrl net url e)) = img_width img \<and>
               imageHeight (retryClick net' (watchImageUrl net url e)) = img_height img \<and>
               ink (maskCanvas (retryClick net' (watchImageUrl net url e))) = []))"
proof -
  let ?e1 = "e\<lparr>imageUrl := url\<rparr>"
  have w: "watchImageUrl net url e = loadImage net ?e1"
    using assms by (simp add: watchImageUrl_def)
  have m: "mounted ?e1" "imageUrl ?e1 \<noteq> []"
    using assms by simp_all
  have ok: "net url = Some img \<Longrightarrow> ?thesis"
    unfolding w by (simp add: loadImage_success [OF m])
  have bad: "net url = None \<Longrightarrow> ?thesis"
  proof -
    assume n: "net url = None"
    let ?e2 = "e\<lparr>imageUrl := url, loading := False, loadError := True\<rparr>"
    have f: "loadImage net ?e1 = ?e2"
      using n by (simp add: loadImage_failure [OF m])
    have m2: "mounted ?e2" "imageUrl ?e2 \<noteq> []"
      using assms by simp_all
    show ?thesis
      unfolding w f using n
      by (auto simp add: retryClick_def loadImage_success [OF m2])
  qed
  show ?thesis
  proof (cases "net url")
    case None
    then show ?thesis by (rule bad)
  next
    case (Some i)
    then have "net url \<noteq> None" by simp
    with Some show ?thesis
      unfolding w by (auto simp add: loadImage_success [OF m])
  qed
qed

theorem watchImageUrl_load_outcomes_witness:
  "ink (maskCanvas (watchImageUrl exampleNet [0x62] paintedEditor)) = [] \<and>
   imageWidth (watchImageUrl exampleNet [0x62] paintedEditor) = 400 \<and>
   watchImageUrl exampleNet [0x63] paintedEditor
     = paintedEditor\<lparr>imageUrl := [0x63], loading := False, loadError := True\<rparr> \<and>
   \<not> loadError (retryClick (\<lambda>u. Some \<lparr>img_width = 400, img_height = 400\<rparr>)
                  (watchImageUrl exampleNet [0x63] paintedEditor)) \<and>
   ink (maskCanvas (retryClick (\<lambda>u. Some \<lparr>img_width = 400, img_height = 400\<rparr>)
                     (watchImageUrl exampleNet [0x63] paintedEditor))) = []"
proof -
  have m: "mounted paintedEditor" by (simp add: paintedEditor_eq exampleEditor_eq)
  have b: "[0x62] \<noteq> imageUrl paintedEditor" "[0x62] \<noteq> ([] :: jsstring)"
    by (simp_all add: paintedEditor_eq exampleEditor_eq)
  have c: "[0x63] \<noteq> imageUrl paintedEditor" "[0x63] \<noteq> ([] :: jsstring)"
    by (simp_all add: paintedEditor_eq exampleEditor_eq)
  have nb: "exampleNet [0x62] = Some \<lparr>img_width = 400, img_height = 400\<rparr>"
    and nc: "exampleNet [0x63] = None"
    by (simp_all add: exampleNet_def)
  from watchImageUrl_load_outcomes [OF m b, of exampleNet "\<lparr>img_width = 400, img_height = 400\<rparr>"]
    watchImageUrl_load_outcomes [OF m c, of exampleNet "\<lparr>img_width = 400, img_height = 400\<rparr>"
      "\<lambda>u. Some \<lparr>img_width = 400, img_height = 400\<rparr>"]
    nb nc
  show ?thesis by auto
qed

text \<open>
  Counterexample to claim C9 as stated: the image URL changes to one that fails to
  load, and the mask in progress is not reset: the stroke is still on the mask canvas,
  the flag is still up, and the export still returns the old mask at the old image's
  size.
\<close>

theorem failed_load_keeps_mask:
  "loadError (watchImageUrl exampleNet [0x63] paintedEditor) \<and>
   ink (maskCanvas (watchImageUrl exampleNet [0x63] paintedEditor))
     = [Arc 10 10 15 [0x72, 0x65, 0x64]] \<and>
   hasMask (watchImageUrl exampleNet [0x63] paintedEditor) \<and>
   imageCanvas (watchImageUrl exampleNet [0x63] paintedEditor) = imageCanvas paintedEditor \<and>
   getMaskCanvas (watchImageUrl exampleNet [0x63] paintedEditor) = getMaskCanvas paintedEditor"
  by (simp add: paintedEditor_eq exampleEditor_eq watchImageUrl_def loadImage_def exampleNet_def
      getMaskCanvas_def)

subsection \<open>Product image uploader: capacity and validation\<close>

lemma validateFiles_snd: "snd (validateFiles fs u v) = v @ filter acceptable fs"
  by (induction fs u v rule: validateFiles.induct) (auto simp add: acceptable_def)

lemma validateFiles_frame:
  "images (fst (validateFiles fs u v)) = images u \<and>
   maxImages (fst (validateFiles fs u v)) = maxImages u"
  by (induction fs u v rule: validateFiles.induct) (auto simp add: emitError_def)

text \<open>The loop emits one error for each file it rejects, and nothing else.\<close>

lemma validateFiles_emitted:
  "\<exists>errs. up_emitted (fst (validateFiles fs u v)) = up_emitted u @ map EmitError errs \<and>
          length errs = length fs - length (filter acceptable fs)"
proof (induction fs u v rule: validateFiles.induct)
  case (1 u validFiles)
  then show ?case by simp
next
  case (2 f fs u validFiles)
  have le: "length (filter acceptable fs) \<le> length fs" by simp
  show ?case
  proof (cases "file_type f \<notin> set ACCEPTED_FORMATS")
    case True
    with 2(1) obtain errs where
      e: "up_emitted (fst (validateFiles fs (emitError (UnsupportedFormat (file_name f)) u) validFiles))
            = up_emitted (emitError (UnsupportedFormat (file_name f)) u) @ map EmitError errs"
         "length errs = length fs - length (filter acceptable fs)"
      by blast
    from True have na: "\<not> acceptable f" by (simp add: acceptable_def)
    from True e le na show ?thesis
      by (intro exI [of _ "UnsupportedFormat (file_name f) # errs"])
         (simp add: emitError_def Suc_diff_le)
  next
    case False
    note fmt = this
    show ?thesis
    proof (cases "file_size f > maxSize")
      case True
      with fmt 2(2) obtain errs where
        e: "up_emitted (fst (validateFiles fs (emitError (FileTooLarge (file_name f)) u) validFiles))
              = up_emitted (emitError (FileTooLarge (file_name f)) u) @ map EmitError errs"
           "length errs = length fs - length (filter acceptable fs)"
        by blast
      from True have na: "\<not> acceptable f" by (simp add: acceptable_def)
      from True fmt e le na show ?thesis
        by (intro exI [of _ "FileTooLarge (file_name f) # errs"])
           (simp add: emitError_def Suc_diff_le)
    next
      case False
      with fmt 2(3) obtain errs where
        e: "up_emitted (fst (validateFiles fs u (validFiles @ [f])))
              = up_emitted u @ map EmitError errs"
           "length errs = length fs - length (filter acceptable fs)"
        by blast
      from False fmt have a: "acceptable f" by (simp add: acceptable_def)
      from False fmt e a show ?thesis
        by (intro exI [of _ errs]) simp
    qed
  qed
qed

lemma processFiles_images:
  "images (processFiles fl u) =
     images u @ map (\<lambda>f. \<lparr>pi_file = f\<rparr>)
       (filter acceptable (take (nat (maxImages u - int (length (images u)))) fl))"
proof -
  let ?r = "maxImages u - int (length (images u))"
  let ?u = "u\<lparr>up_error := None\<rparr>"
  show ?thesis
  proof (cases "?r \<le> 0")
    case True
    then show ?thesis by (simp add: processFiles_def emitError_def)
  next
    case False
    obtain u1 valid where v: "validateFiles (take (nat ?r) fl) ?u [] = (u1, valid)"
      by (cases "validateFiles (take (nat ?r) fl) ?u []")
    from v validateFiles_snd [of "take (nat ?r) fl" ?u "[]"]
    have valid: "valid = filter acceptable (take (nat ?r) fl)" by simp
    from v validateFiles_frame [of "take (nat ?r) fl" ?u "[]"]
    have fr: "images u1 = images u" by simp
    from False v valid fr show ?thesis
      by (simp add: processFiles_def Let_def emitError_def)
  qed
qed

lemma processFiles_maxImages: "maxImages (processFiles fl u) = maxImages u"
proof -
  let ?r = "maxImages u - int (length (images u))"
  let ?u = "u\<lparr>up_error := None\<rparr>"
  obtain u1 valid where v: "validateFiles (take (nat ?r) fl) ?u [] = (u1, valid)"
    by (cases "validateFiles (take (nat ?r) fl) ?u []")
  from v validateFiles_frame [of "take (nat ?r) fl" ?u "[]"]
  have fr: "maxImages u1 = maxImages u" by simp
  from v fr show ?thesis
    by (simp add: processFiles_def Let_def emitError_def)
qed

lemma processFiles_error_emitted:
  assumes "length (images (processFiles fl u)) < length (images u) + length fl"
  shows "\<exists>err. EmitError err \<in> set (drop (length (up_emitted u)) (up_emitted (processFiles fl u)))"
proof -
  let ?r = "maxImages u - int (length (images u))"
  let ?u = "u\<lparr>up_error := None\<rparr>"
  show ?thesis
  proof (cases "?r \<le> 0")
    case True
    then show ?thesis by (simp add: processFiles_def emitError_def)
  next
    case False
    obtain u1 valid where v: "validateFiles (take (nat ?r) fl) ?u [] = (u1, valid)"
      by (cases "validateFiles (take (nat ?r) fl) ?u []")
    from v validateFiles_snd [of "take (nat ?r) fl" ?u "[]"]
    have valid: "valid = filter acceptable (take (nat ?r) fl)" by simp
    from v validateFiles_emitted [of "take (nat ?r) fl" ?u "[]"]
    obtain errs where errs: "up_emitted u1 = up_emitted u @ map EmitError errs"
      "length errs = length (take (nat ?r) fl) - length (filter acceptable (take (nat ?r) fl))"
      by auto
    show ?thesis
    proof (cases "errs = []")
      case True
      with errs(2)
      have "length (take (nat ?r) fl) - length (filter acceptable (take (nat ?r) fl)) = 0"
        by simp
      then have all: "length (filter acceptable (take (nat ?r) fl)) = length (take (nat ?r) fl)"
        using length_filter_le [of acceptable "take (nat ?r) fl"] by linarith
      from assms have "length (filter acceptable (take (nat ?r) fl)) < length fl"
        by (simp add: processFiles_images)
      with all have short: "nat ?r < length fl" by simp
      with False all have ne: "valid \<noteq> []" unfolding valid by auto
      from short have "int (length fl) > ?r" by linarith
      with False v ne errs(1) show ?thesis
        by (auto simp add: processFiles_def Let_def emitError_def)
    next
      case False
      then obtain e es where "errs = e # es" by (cases errs) auto
      with \<open>\<not> ?r \<le> 0\<close> v errs(1) show ?thesis
        by (auto simp add: processFiles_def Let_def emitError_def intro: exI [of _ e])
    qed
  qed
qed

lemma upload_inv_processFiles: "upload_inv u \<Longrightarrow> upload_inv (processFiles fl u)"
proof -
  assume i: "upload_inv u"
  let ?r = "maxImages u - int (length (images u))"
  have "length (filter acceptable (take (nat ?r) fl)) \<le> nat ?r"
    using length_filter_le [of acceptable "take (nat ?r) fl"] by simp
  with i show ?thesis
    by (auto simp add: upload_inv_def processFiles_images processFiles_maxImages)
qed

lemma upload_inv_removeImage: "upload_inv u \<Longrightarrow> upload_inv (removeImage i u)"
  by (auto simp add: upload_inv_def removeImage_def Let_def dest: in_set_takeD in_set_dropD)

lemma upload_inv_step: "upload_inv u \<Longrightarrow> upload_inv (upload_step u op)"
  by (cases op)
     (auto simp add: upload_step_def handleFileSelect_def handleZoneDrop_def
        upload_inv_processFiles upload_inv_removeImage split: option.splits)

lemma upload_inv_run: "upload_inv u \<Longrightarrow> upload_inv (foldl upload_step u ops)"
  by (induction ops arbitrary: u) (simp_all add: upload_inv_step)

lemma maxImages_step: "maxImages (upload_step u op) = maxImages u"
  by (cases op)
     (auto simp add: upload_step_def handleFileSelect_def handleZoneDrop_def
        processFiles_maxImages removeImage_def Let_def split: option.splits)

lemma maxImages_run: "maxImages (foldl upload_step u ops) = maxImages u"
  by (induction ops arbitrary: u) (simp_all add: maxImages_step)

text \<open>
  Claim C10. With a non-negative \<open>maxImages\<close>, after any sequence of file selections,
  drops and removals on a new uploader, the image list has at most \<open>maxImages\<close>
  entries, and every stored file has MIME type image/png, image/jpeg or image/webp and
  size at most 10 MB (10485760 bytes). Each step keeps this invariant. A call of
  processFiles appends exactly the valid files among the first
  \<open>maxImages - length images\<close> files offered, and whenever some offered file is not
  added, the call emits an error event.
\<close>

theorem uploader_capacity_and_validation:
  assumes "0 \<le> m"
  shows "int (length (images (upload_run (newUploader m) ops))) \<le> m \<and>
         (\<forall>img \<in> set (images (upload_run (newUploader m) ops)).
            file_type (pi_file img) \<in>
              {ascii ''image/png'', ascii ''image/jpeg'', ascii ''image/webp''} \<and>
            file_size (pi_file img) \<le> 10485760) \<and>
         (upload_inv u \<longrightarrow> upload_inv (upload_step u op)) \<and>
         images (processFiles fl u) =
           images u @ map (\<lambda>f. \<lparr>pi_file = f\<rparr>)
             (filter acceptable (take (nat (maxImages u - int (length (images u)))) fl)) \<and>
         (length (images (processFiles fl u)) < length (images u) + length fl \<longrightarrow>
            (\<exists>err. EmitError err \<in>
               set (drop (length (up_emitted u)) (up_emitted (processFiles fl u)))))"
proof -
  from assms have "upload_inv (newUploader m)"
    by (simp add: upload_inv_def newUploader_def)
  then have i: "upload_inv (upload_run (newUploader m) ops)"
    unfolding upload_run_def by (rule upload_inv_run)
  have mx: "maxImages (upload_run (newUploader m) ops) = m"
    by (simp add: upload_run_def maxImages_run newUploader_def)
  from i mx have a: "int (length (images (upload_run (newUploader m) ops))) \<le> m"
    by (simp add: upload_inv_def)
  from i have b: "\<forall>img \<in> set (images (upload_run (newUploader m) ops)).
            file_type (pi_file img) \<in>
              {ascii ''image/png'', ascii ''image/jpeg'', ascii ''image/webp''} \<and>
            file_size (pi_file img) \<le> 10485760"
    by (simp add: upload_inv_def acceptable_def ACCEPTED_FORMATS_def maxSize_def)
  from a b show ?thesis
    by (simp add: upload_inv_step processFiles_images processFiles_error_emitted)
qed

theorem uploader_capacity_and_validation_witness:
  "(0::int) \<le> 2 \<and>
   upload_inv (newUploader 2) \<and>
   images (processFiles [pngFile, gifFile, pngFile] (newUploader 2)) = [\<lparr>pi_file = pngFile\<rparr>] \<and>
   upload_inv (upload_step (newUploader 2) (Select (Some [pngFile, gifFile, pngFile]))) \<and>
   (\<exists>err. EmitError err \<in>
      set (drop (length (up_emitted (newUploader 2)))
             (up_emitted (processFiles [pngFile, gifFile, pngFile] (newUploader 2))))) \<and>
   int (length (images (upload_run (newUploader 2)
          [Select (Some [pngFile, gifFile, pngFile]), Drop (Some [hugeFile]), Remove 0]))) \<le> 2 \<and>
   list_all (\<lambda>img. file_size (pi_file img) \<le> 10485760)
     (images (upload_run (newUploader 2)
          [Select (Some [pngFile, gifFile, pngFile]), Drop (Some [hugeFile]), Remove 0]))"
proof -
  have z: "(0::int) \<le> 2" by simp
  have i: "upload_inv (newUploader 2)"
    by (simp add: upload_inv_def newUploader_def)
  have png: "acceptable pngFile" and gif: "\<not> acceptable gifFile"
    by (simp_all add: acceptable_def pngFile_def gifFile_def ACCEPTED_FORMATS_def ascii_def
        maxSize_def)
  have len: "length (images (newUploader 2)) = 0" "maxImages (newUploader 2) = 2"
    by (simp_all add: newUploader_def)
  from uploader_capacity_and_validation [OF z,
      of "[Select (Some [pngFile, gifFile, pngFile]), Drop (Some [hugeFile]), Remove 0]"
         "newUploader 2" "Select (Some [pngFile, gifFile, pngFile])"
         "[pngFile, gifFile, pngFile]"]
    i png gif len
  show ?thesis
    by (simp add: list_all_iff)
qed

end
